theory Spec2Isabelle
  imports Main "HOL-Library.AList" "HOL-Library.Sublist"
begin

section \<open>Outbound caller agent (\<open>agent.py\<close>)\<close>

text \<open>
  The module defines the agent class \<open>OutboundCaller\<close> with its five function tools and the
  job entry point \<open>entrypoint\<close>. The calls to the room, the telephony provider and the
  conversation session are awaited coroutines of external libraries: they are recorded, in
  order, in a trace, each with the outcome the environment gave it. Logging is not recorded;
  where the argument of a logger call can raise, the raise is a branch of the model.
\<close>

subsection \<open>Python values and exceptions\<close>

text \<open>
  A Python \<open>str\<close> is the list of its Unicode code points. The string literals of the source
  are written as Isabelle strings and turned into code points by \<open>py\<close>.
\<close>

type_synonym pystr = "nat list"

definition py :: "string \<Rightarrow> pystr" where
  "py s = map of_char s"

text \<open>
  The values job metadata can hold: what \<open>json.loads\<close> returns, floating-point numbers
  apart. A \<open>dict\<close> with string keys is an association list in insertion order.
\<close>

datatype pyval =
    PNone
  | PBool bool
  | PInt int
  | PStr pystr
  | PList "pyval list"
  | PDict "(pystr \<times> pyval) list"

type_synonym dict = "(pystr \<times> pyval) list"

datatype exn =
    AttributeError
  | KeyError
  | TypeError
  | JSONDecodeError
  | TwirpError
  | RuntimeError
  | CancelledError

text \<open>\<open>except Exception\<close> catches every class above but \<open>asyncio.CancelledError\<close>,
  which derives from \<open>BaseException\<close> only.\<close>

fun is_Exception :: "exn \<Rightarrow> bool" where
  "is_Exception CancelledError = False"
| "is_Exception _ = True"

text \<open>Truth value of a Python object, as \<open>if x\<close> and \<open>not x\<close> test it.\<close>

fun truthy :: "pyval \<Rightarrow> bool" where
  "truthy PNone = False"
| "truthy (PBool b) = b"
| "truthy (PInt i) = (i \<noteq> 0)"
| "truthy (PStr s) = (s \<noteq> [])"
| "truthy (PList xs) = (xs \<noteq> [])"
| "truthy (PDict d) = (d \<noteq> [])"

text \<open>\<open>k in v\<close> for a string \<open>k\<close>: key membership in a dict, substring test in a str,
  element test in a list, \<open>TypeError\<close> on a value that is not a container.\<close>

fun py_contains :: "pystr \<Rightarrow> pyval \<Rightarrow> exn + bool" where
  "py_contains k (PDict d) = Inr (map_of d k \<noteq> None)"
| "py_contains k (PStr s) = Inr (sublist k s)"
| "py_contains k (PList xs) = Inr (PStr k \<in> set xs)"
| "py_contains k _ = Inl TypeError"

text \<open>\<open>v[k] = x\<close> for a string \<open>k\<close>: only a dict accepts it.\<close>

fun py_setitem :: "pyval \<Rightarrow> pystr \<Rightarrow> pyval \<Rightarrow> exn + pyval" where
  "py_setitem (PDict d) k x = Inr (PDict (AList.update k x d))"
| "py_setitem _ k x = Inl TypeError"

subsection \<open>The regular expressions of the fallback extraction\<close>

text \<open>
  \<open>re.search(r'phone_number[\'"\s:]+([+\d]+)', s)\<close> and the same with \<open>transfer_to\<close>, on a
  \<open>str\<close>. \<open>\s\<close> is Python's Unicode whitespace: the code points listed here.
\<close>

definition is_space :: "nat \<Rightarrow> bool" where
  "is_space c =
     ((9 \<le> c \<and> c \<le> 13) \<or> (28 \<le> c \<and> c \<le> 32) \<or> c = 133 \<or> c = 160 \<or> c = 5760
      \<or> (8192 \<le> c \<and> c \<le> 8202) \<or> c = 8232 \<or> c = 8233 \<or> c = 8239 \<or> c = 8287
      \<or> c = 12288)"

text \<open>
  \<open>\d\<close> is a Unicode decimal digit. Below code point 128 these are \<open>0\<close> to \<open>9\<close>; from 128 on
  the table of the Unicode database the interpreter was built with decides, a parameter
  here.
\<close>

type_synonym decimal_table = "nat \<Rightarrow> bool"

definition is_digit :: "decimal_table \<Rightarrow> nat \<Rightarrow> bool" where
  "is_digit decimal c = (if c < 128 then 48 \<le> c \<and> c \<le> 57 else decimal c)"

text \<open>The class \<open>[\'"\s:]\<close>: apostrophe 39, quotation mark 34, colon 58, whitespace.\<close>

definition is_sep :: "nat \<Rightarrow> bool" where
  "is_sep c = (c = 39 \<or> c = 34 \<or> c = 58 \<or> is_space c)"

text \<open>The class \<open>[+\d]\<close>: plus sign 43, decimal digit.\<close>

definition is_tok :: "decimal_table \<Rightarrow> nat \<Rightarrow> bool" where
  "is_tok decimal c = (c = 43 \<or> is_digit decimal c)"

text \<open>
  The part of the pattern after the label, on the text \<open>r\<close> that follows the label. The
  separators are greedy: they first take all \<open>k\<close> separator characters at the start of \<open>r\<close>
  and give them back one by one, down to one, until a token character follows. Group 1 is
  then the longest run of token characters from there: the group is greedy and nothing
  follows it in the pattern.
\<close>

fun backtrack :: "decimal_table \<Rightarrow> pystr \<Rightarrow> nat \<Rightarrow> pystr option" where
  "backtrack decimal r 0 = None"
| "backtrack decimal r (Suc j) =
     (let tok = takeWhile (is_tok decimal) (drop (Suc j) r)
      in if tok \<noteq> [] then Some tok else backtrack decimal r j)"

text \<open>A match attempt at the start of \<open>s\<close>, returning group 1.\<close>

definition match_at :: "decimal_table \<Rightarrow> pystr \<Rightarrow> pystr \<Rightarrow> pystr option" where
  "match_at decimal label s =
     (if prefix label s then
        (let r = drop (length label) s
         in backtrack decimal r (length (takeWhile is_sep r)))
      else None)"

text \<open>\<open>re.search\<close> scans the start positions from left to right and returns the first match.\<close>

fun re_search :: "decimal_table \<Rightarrow> pystr \<Rightarrow> pystr \<Rightarrow> pystr option" where
  "re_search decimal label [] = match_at decimal label []"
| "re_search decimal label (c # cs) =
     (case match_at decimal label (c # cs) of
        Some tok \<Rightarrow> Some tok
      | None \<Rightarrow> re_search decimal label cs)"

subsection \<open>Metadata resolution (\<open>entrypoint\<close>, lines 184 to 222)\<close>

text \<open>
  \<open>json.loads\<close> is a parameter: it returns the parsed value or raises. The environment
  variables are a parameter too.
\<close>

type_synonym json_loads = "pystr \<Rightarrow> exn + pyval"
type_synonym getenv = "string \<Rightarrow> pystr option"

text \<open>The dict built from the two regular-expression matches (lines 196 to 204).\<close>

definition regex_fallback :: "decimal_table \<Rightarrow> pystr \<Rightarrow> pyval" where
  "regex_fallback decimal s =
     (let phone_match = re_search decimal (py ''phone_number'') s;
          transfer_match = re_search decimal (py ''transfer_to'') s;
          d0 = [];
          d1 = (case phone_match of
                  Some g \<Rightarrow> AList.update (py ''phone_number'') (PStr g) d0
                | None \<Rightarrow> d0);
          d2 = (case transfer_match of
                  Some g \<Rightarrow> AList.update (py ''transfer_to'') (PStr g) d1
                | None \<Rightarrow> d1)
      in PDict d2)"

text \<open>
  The \<open>try\<close> block of lines 184 to 214. \<open>JSONDecodeError\<close> leads to the regular
  expressions, any other \<open>Exception\<close> to the empty dict; what is not an \<open>Exception\<close>
  propagates.
\<close>

definition parse_metadata :: "decimal_table \<Rightarrow> json_loads \<Rightarrow> pyval \<Rightarrow> exn + pyval" where
  "parse_metadata decimal loads metadata =
     (if truthy metadata then
        (case metadata of
           PStr s \<Rightarrow>
             (case loads s of
                Inr v \<Rightarrow> Inr v
              | Inl e \<Rightarrow>
                  if e = JSONDecodeError then Inr (regex_fallback decimal s)
                  else if is_Exception e then Inr (PDict [])
                  else Inl e)
         | _ \<Rightarrow> Inr metadata)
      else Inr (PDict []))"

text \<open>\<open>if key not in dial_info: dial_info[key] = default\<close>.\<close>

definition set_default :: "pystr \<Rightarrow> pyval \<Rightarrow> pyval \<Rightarrow> exn + pyval" where
  "set_default key dflt di =
     (case py_contains key di of
        Inl e \<Rightarrow> Inl e
      | Inr True \<Rightarrow> Inr di
      | Inr False \<Rightarrow> py_setitem di key dflt)"

text \<open>\<open>os.getenv(name, "")\<close>.\<close>

definition getenv_or_empty :: "getenv \<Rightarrow> string \<Rightarrow> pyval" where
  "getenv_or_empty env_vars name = PStr (case env_vars name of Some v \<Rightarrow> v | None \<Rightarrow> [])"

text \<open>Lines 216 to 222.\<close>

definition apply_defaults :: "getenv \<Rightarrow> pyval \<Rightarrow> exn + pyval" where
  "apply_defaults env_vars di =
     (case set_default (py ''phone_number'')
             (getenv_or_empty env_vars ''DEFAULT_PHONE_NUMBER'') di of
        Inl e \<Rightarrow> Inl e
      | Inr di1 \<Rightarrow>
     (case set_default (py ''transfer_to'')
             (getenv_or_empty env_vars ''DEFAULT_TRANSFER_NUMBER'') di1 of
        Inl e \<Rightarrow> Inl e
      | Inr di2 \<Rightarrow> set_default (py ''prospect_name'') (PStr (py ''there'')) di2))"

definition resolve_dial_info ::
    "decimal_table \<Rightarrow> json_loads \<Rightarrow> getenv \<Rightarrow> pyval \<Rightarrow> exn + pyval" where
  "resolve_dial_info decimal loads env_vars metadata =
     (case parse_metadata decimal loads metadata of
        Inl e \<Rightarrow> Inl e
      | Inr di \<Rightarrow> apply_defaults env_vars di)"

subsection \<open>External calls and their trace\<close>

text \<open>
  A request to the room, the provider or the conversation session. The room is the job's
  only room, so its name is left out of the requests. \<open>CreateSIPParticipant trunk number\<close>
  carries the module's \<open>outbound_trunk_id\<close> and \<open>sip_call_to\<close>; \<open>TransferSIPParticipant p v\<close>
  carries the participant identity and the value sent as \<open>f"tel:{v}"\<close>; \<open>SpeechDone h\<close> is
  the wait for what \<open>current_speech.done()\<close> returned on the speech handle \<open>h\<close>.
\<close>

datatype request =
    Connect
  | SessionStart
  | CreateSIPParticipant "pystr option" pystr
  | WaitForParticipant pystr
  | Shutdown
  | GenerateReply string
  | TransferSIPParticipant pystr pyval
  | SpeechDone nat
  | DeleteRoom

text \<open>An event is a request with its outcome: \<open>None\<close> when the call returned, \<open>Some e\<close>
  when it raised \<open>e\<close>. The environment decides the outcome from the history and the request.\<close>

type_synonym event = "request \<times> exn option"
type_synonym trace = "event list"
type_synonym environment = "trace \<Rightarrow> request \<Rightarrow> exn option"

text \<open>The agent object (\<open>participant\<close>, held by its identity, and \<open>dial_info\<close>) together
  with the trace of the job.\<close>

record call =
  participant :: "pystr option"
  dial_info :: dict
  trace :: trace

text \<open>
  The handle of a speech. \<open>done()\<close> is a method of the library's \<open>SpeechHandle\<close>, not of this
  module: the handle carries what the method returns, an awaitable or a plain \<open>bool\<close>.
  \<open>SpeechHandle.done()\<close> of the agents library returns a \<open>bool\<close>.
\<close>

datatype done_value = Awaitable | PlainBool bool

record SpeechHandle =
  handle :: nat
  done_returns :: done_value

text \<open>\<open>ctx.session.current_speech\<close> as the tool finds it: a speech handle or \<open>None\<close>.\<close>

record RunContext =
  current_speech :: "SpeechHandle option"

text \<open>An awaited external coroutine: the environment's outcome is recorded and returned.\<close>

definition await_call :: "environment \<Rightarrow> request \<Rightarrow> call \<Rightarrow> exn option \<times> call" where
  "await_call env r s =
     (let outcome = env (trace s) r
      in (outcome, s\<lparr>trace := trace s @ [(r, outcome)]\<rparr>))"

text \<open>A call that is not awaited for a result (\<open>asyncio.create_task\<close>, \<open>ctx.shutdown()\<close>).\<close>

definition emit :: "request \<Rightarrow> call \<Rightarrow> call" where
  "emit r s = s\<lparr>trace := trace s @ [(r, None)]\<rparr>"

subsection \<open>The agent \<open>OutboundCaller\<close>\<close>

text \<open>\<open>__init__\<close>: no participant yet, the dial info as given.\<close>

definition init_caller :: "dict \<Rightarrow> call \<Rightarrow> call" where
  "init_caller d s = s\<lparr>participant := None, dial_info := d\<rparr>"

definition set_participant :: "pystr \<Rightarrow> call \<Rightarrow> call" where
  "set_participant p s = s\<lparr>participant := Some p\<rparr>"

definition hangup :: "environment \<Rightarrow> call \<Rightarrow> (exn + pyval) \<times> call" where
  "hangup env s =
     (case await_call env DeleteRoom s of
        (Some e, s') \<Rightarrow> (Inl e, s')
      | (None, s') \<Rightarrow> (Inr PNone, s'))"

definition announce_instructions :: string where
  "announce_instructions = ''let the user know you'll be transferring them''"

definition apology_instructions :: string where
  "apology_instructions = ''there was an error transferring the call.''"

text \<open>
  The body of the \<open>try\<close> in \<open>transfer_call\<close>: building the request reads
  \<open>self.participant.identity\<close>, which raises when no participant is bound.
\<close>

definition transfer_request :: "environment \<Rightarrow> pyval \<Rightarrow> call \<Rightarrow> exn option \<times> call" where
  "transfer_request env transfer_to s =
     (case participant s of
        None \<Rightarrow> (Some AttributeError, s)
      | Some p \<Rightarrow> await_call env (TransferSIPParticipant p transfer_to) s)"

text \<open>The \<open>except Exception\<close> handler of \<open>transfer_call\<close>.\<close>

definition transfer_failed :: "environment \<Rightarrow> call \<Rightarrow> (exn + pyval) \<times> call" where
  "transfer_failed env s =
     (case await_call env (GenerateReply apology_instructions) s of
        (Some e, s') \<Rightarrow> (Inl e, s')
      | (None, s') \<Rightarrow> hangup env s')"

definition transfer_call :: "environment \<Rightarrow> RunContext \<Rightarrow> call \<Rightarrow> (exn + pyval) \<times> call" where
  "transfer_call env ctx s =
     (case map_of (dial_info s) (py ''transfer_to'') of
        None \<Rightarrow> (Inl KeyError, s)
      | Some transfer_to \<Rightarrow>
          if \<not> truthy transfer_to then (Inr (PStr (py ''cannot transfer call'')), s)
          else
            (case await_call env (GenerateReply announce_instructions) s of
               (Some e, s1) \<Rightarrow> (Inl e, s1)
             | (None, s1) \<Rightarrow>
                 (case transfer_request env transfer_to s1 of
                    (None, s2) \<Rightarrow> (Inr PNone, s2)
                  | (Some e, s2) \<Rightarrow>
                      if is_Exception e then transfer_failed env s2 else (Inl e, s2))))"

text \<open>
  \<open>await current_speech.done()\<close>: the method call returns at once; \<open>await\<close> of a value that
  is not awaitable raises \<open>TypeError\<close>, and an awaitable is waited for.
\<close>

definition await_done :: "environment \<Rightarrow> SpeechHandle \<Rightarrow> call \<Rightarrow> exn option \<times> call" where
  "await_done env h s =
     (case done_returns h of
        PlainBool b \<Rightarrow> (Some TypeError, s)
      | Awaitable \<Rightarrow> await_call env (SpeechDone (handle h)) s)"

text \<open>The logger call that opens \<open>end_call\<close> reads \<open>self.participant.identity\<close>.\<close>

definition end_call :: "environment \<Rightarrow> RunContext \<Rightarrow> call \<Rightarrow> (exn + pyval) \<times> call" where
  "end_call env ctx s =
     (case participant s of
        None \<Rightarrow> (Inl AttributeError, s)
      | Some p \<Rightarrow>
          (case current_speech ctx of
             None \<Rightarrow> hangup env s
           | Some h \<Rightarrow>
               (case await_done env h s of
                  (Some e, s1) \<Rightarrow> (Inl e, s1)
                | (None, s1) \<Rightarrow> hangup env s1)))"

text \<open>\<open>asyncio.sleep(3)\<close> only delays the answer; time is not part of the model.\<close>

definition look_up_availability ::
    "environment \<Rightarrow> RunContext \<Rightarrow> pystr \<Rightarrow> call \<Rightarrow> (exn + pyval) \<times> call" where
  "look_up_availability env ctx date s =
     (case participant s of
        None \<Rightarrow> (Inl AttributeError, s)
      | Some p \<Rightarrow>
          (Inr (PDict [(py ''available_times'',
                        PList [PStr (py ''1pm''), PStr (py ''2pm''), PStr (py ''3pm'')])]), s))"

definition confirm_appointment ::
    "environment \<Rightarrow> RunContext \<Rightarrow> pystr \<Rightarrow> pystr \<Rightarrow> call \<Rightarrow> (exn + pyval) \<times> call" where
  "confirm_appointment env ctx date time s =
     (case participant s of
        None \<Rightarrow> (Inl AttributeError, s)
      | Some p \<Rightarrow> (Inr (PStr (py ''reservation confirmed'')), s))"

definition detected_answering_machine ::
    "environment \<Rightarrow> RunContext \<Rightarrow> call \<Rightarrow> (exn + pyval) \<times> call" where
  "detected_answering_machine env ctx s =
     (case participant s of
        None \<Rightarrow> (Inl AttributeError, s)
      | Some p \<Rightarrow> hangup env s)"

subsection \<open>The job entry point\<close>

text \<open>The state of the job before the agent object exists.\<close>

definition job_start :: call where
  "job_start = \<lparr>participant = None, dial_info = [], trace = []\<rparr>"

text \<open>The \<open>except api.TwirpError\<close> handler of the dial block; any other exception propagates.\<close>

definition dial_failed :: "exn \<Rightarrow> call \<Rightarrow> (exn + pyval) \<times> call" where
  "dial_failed e s = (if e = TwirpError then (Inr PNone, emit Shutdown s) else (Inl e, s))"

text \<open>
  The \<open>try\<close> block of lines 256 to 284; \<open>trunk\<close> is the module's \<open>outbound_trunk_id\<close>. The
  field \<open>sip_call_to\<close> of the request message takes a \<open>str\<close>: with any other value building
  the request raises \<open>TypeError\<close>, before a call to the provider, and the handler lets it
  pass.
\<close>

definition place_call :: "environment \<Rightarrow> pystr option \<Rightarrow> call \<Rightarrow> (exn + pyval) \<times> call" where
  "place_call env trunk s =
     (case map_of (dial_info s) (py ''phone_number'') of
        None \<Rightarrow> (Inl KeyError, s)
      | Some phone_number \<Rightarrow>
          if \<not> truthy phone_number then (Inr PNone, emit Shutdown s)
          else
            (case phone_number of
               PStr number \<Rightarrow>
                 (case await_call env (CreateSIPParticipant trunk number) s of
                    (Some e, s1) \<Rightarrow> dial_failed e s1
                  | (None, s1) \<Rightarrow>
                      (case await_call env (WaitForParticipant (py ''phone_user'')) s1 of
                         (Some e, s2) \<Rightarrow> dial_failed e s2
                       | (None, s2) \<Rightarrow> (Inr PNone, set_participant (py ''phone_user'') s2)))
             | _ \<Rightarrow> dial_failed TypeError s))"

text \<open>
  \<open>entrypoint\<close>: connect, resolve the metadata, build the agent (\<open>dial_info.get\<close> exists on
  a dict only), start the session as a task, dial.
\<close>

definition entrypoint ::
    "environment \<Rightarrow> decimal_table \<Rightarrow> json_loads \<Rightarrow> getenv \<Rightarrow> pyval \<Rightarrow> (exn + pyval) \<times> call" where
  "entrypoint env decimal loads env_vars metadata =
     (case await_call env Connect job_start of
        (Some e, s1) \<Rightarrow> (Inl e, s1)
      | (None, s1) \<Rightarrow>
          (case resolve_dial_info decimal loads env_vars metadata of
             Inl e \<Rightarrow> (Inl e, s1)
           | Inr (PDict d) \<Rightarrow>
               place_call env (env_vars ''SIP_OUTBOUND_TRUNK_ID'')
                 (emit SessionStart (init_caller d s1))
           | Inr _ \<Rightarrow> (Inl AttributeError, s1)))"

subsection \<open>Notions used to state the properties\<close>



text \<open>The number of delete-room requests issued so far.\<close>

definition delete_requests :: "trace \<Rightarrow> nat" where
  "delete_requests t = length (filter (\<lambda>e. fst e = DeleteRoom) t)"

text \<open>A dial request to the provider.\<close>

fun is_dial_request :: "event \<Rightarrow> bool" where
  "is_dial_request (CreateSIPParticipant trunk number, outcome) = True"
| "is_dial_request _ = False"

subsection \<open>Sample environments and sessions\<close>

definition all_succeed :: environment where
  "all_succeed t r = None"



text \<open>The announcement turn raises.\<close>

definition announcement_fails :: environment where
  "announcement_fails t r =
     (if r = GenerateReply announce_instructions then Some RuntimeError else None)"

definition no_env_vars :: getenv where
  "no_env_vars name = None"

text \<open>A decimal table that holds no digit from code point 128 on; the sample texts are
  ASCII, where the table is not consulted.\<close>

definition ascii_digits_only :: decimal_table where
  "ascii_digits_only c = False"

text \<open>A stand-in for \<open>json.loads\<close> that agrees with it on the one document \<open>null\<close>
  and rejects every other text.\<close>

definition loads_null_only :: json_loads where
  "loads_null_only s = (if s = py ''null'' then Inr PNone else Inl JSONDecodeError)"


definition answered_call :: call where
  "answered_call =
     \<lparr>participant = Some (py ''phone_user''),
      dial_info = [(py ''phone_number'', PStr (py ''+15551234567'')),
                   (py ''transfer_to'', PStr (py ''+15557654321'')),
                   (py ''prospect_name'', PStr (py ''there''))],
      trace = [(Connect, None), (SessionStart, None),
               (CreateSIPParticipant None (py ''+15551234567''), None),
               (WaitForParticipant (py ''phone_user''), None)]\<rparr>"

definition no_speech :: RunContext where
  "no_speech = \<lparr>current_speech = None\<rparr>"

text \<open>A speech is in progress: its handle's \<open>done()\<close> returns \<open>False\<close>.\<close>

definition speaking :: RunContext where
  "speaking = \<lparr>current_speech = Some \<lparr>handle = 0, done_returns = PlainBool False\<rparr>\<rparr>"

text \<open>The answered call after a first \<open>end_call\<close> that deleted the room.\<close>

definition ended_call :: call where
  "ended_call = snd (end_call all_succeed no_speech answered_call)"

section \<open>Properties\<close>

subsection \<open>String literals\<close>

lemma py_eq: "py a = py b \<longleftrightarrow> a = b"
  by (simp add: py_def inj_map_eq_map [OF inj_of_char])

subsection \<open>External calls\<close>

lemma await_call_eq:
  "await_call env r s = (env (trace s) r, s\<lparr>trace := trace s @ [(r, env (trace s) r)]\<rparr>)"
  by (simp add: await_call_def Let_def)

lemma hangup_eq:
  "hangup env s =
     ((case env (trace s) DeleteRoom of Some e \<Rightarrow> Inl e | None \<Rightarrow> Inr PNone),
      s\<lparr>trace := trace s @ [(DeleteRoom, env (trace s) DeleteRoom)]\<rparr>)"
  by (simp add: hangup_def await_call_eq split: option.splits)

subsection \<open>Defaults of the dial info\<close>

lemma set_default_dict:
  "set_default k x di = Inr (PDict d) \<Longrightarrow>
     map_of d k \<noteq> None \<and> (\<exists>d0. di = PDict d0 \<and> (d = d0 \<or> d = AList.update k x d0))"
  by (cases di) (auto simp: set_default_def update_conv' split: if_splits bool.splits)

lemma set_default_keeps:
  "set_default k x (PDict d0) = Inr (PDict d) \<Longrightarrow> map_of d0 k' = Some v \<Longrightarrow>
     map_of d k' \<noteq> None"
  by (auto simp: set_default_def update_conv' split: if_splits bool.splits)

lemma set_default_not_dict:
  "set_default k x di = Inr di' \<Longrightarrow> (\<exists>d. di' = PDict d) \<Longrightarrow> (\<exists>d0. di = PDict d0)"
  by (cases di) (auto simp: set_default_def split: if_splits bool.splits)

lemma apply_defaults_keys:
  assumes "apply_defaults env_vars di = Inr (PDict d)"
  shows "map_of d (py ''phone_number'') \<noteq> None \<and> map_of d (py ''transfer_to'') \<noteq> None
         \<and> map_of d (py ''prospect_name'') \<noteq> None"
proof -
  from assms obtain di1 di2 where
    s1: "set_default (py ''phone_number'')
           (getenv_or_empty env_vars ''DEFAULT_PHONE_NUMBER'') di = Inr di1" and
    s2: "set_default (py ''transfer_to'')
           (getenv_or_empty env_vars ''DEFAULT_TRANSFER_NUMBER'') di1 = Inr di2" and
    s3: "set_default (py ''prospect_name'') (PStr (py ''there'')) di2 = Inr (PDict d)"
    by (auto simp: apply_defaults_def split: sum.splits)
  from s3 set_default_not_dict obtain d2 where d2: "di2 = PDict d2" by blast
  from s2 d2 set_default_not_dict obtain d1 where d1: "di1 = PDict d1" by blast
  from s1 d1 set_default_dict have k1: "map_of d1 (py ''phone_number'') \<noteq> None" by blast
  from s2 d1 d2 set_default_dict have k2: "map_of d2 (py ''transfer_to'') \<noteq> None" by blast
  from s3 set_default_dict have k3: "map_of d (py ''prospect_name'') \<noteq> None" by blast
  from k1 s2 d1 d2 set_default_keeps have k1': "map_of d2 (py ''phone_number'') \<noteq> None"
    by blast
  from k1' s3 d2 set_default_keeps have "map_of d (py ''phone_number'') \<noteq> None" by blast
  moreover from k2 s3 d2 set_default_keeps have "map_of d (py ''transfer_to'') \<noteq> None"
    by blast
  ultimately show ?thesis using k3 by simp
qed

lemma resolve_keys:
  "resolve_dial_info decimal loads env_vars metadata = Inr (PDict d) \<Longrightarrow>
     map_of d (py ''phone_number'') \<noteq> None \<and> map_of d (py ''transfer_to'') \<noteq> None
     \<and> map_of d (py ''prospect_name'') \<noteq> None"
  by (auto simp: resolve_dial_info_def split: sum.splits dest: apply_defaults_keys)



text \<open>The dial info resolved from absent metadata with no defaults configured.\<close>

lemma resolve_absent:
  "resolve_dial_info decimal loads no_env_vars PNone
     = Inr (PDict [(py ''phone_number'', PStr []), (py ''transfer_to'', PStr []),
                   (py ''prospect_name'', PStr (py ''there''))])"
  by (simp add: resolve_dial_info_def parse_metadata_def apply_defaults_def set_default_def
      getenv_or_empty_def no_env_vars_def py_eq)

subsection \<open>Transfer without a transfer number\<close>

text \<open>
  Claim C3. When the resolved dial info holds no transfer number (the key was absent from
  the metadata and the default is empty, or the value is empty), \<open>transfer_call\<close> returns
  \<open>"cannot transfer call"\<close> and leaves the agent and the trace as they were: no
  announcement, no transfer request.
\<close>

theorem transfer_without_number:
  assumes "resolve_dial_info decimal loads env_vars metadata = Inr (PDict d)"
    and "\<forall>v. map_of d (py ''transfer_to'') = Some v \<longrightarrow> \<not> truthy v"
    and "dial_info s = d"
  shows "transfer_call env ctx s = (Inr (PStr (py ''cannot transfer call'')), s)"
proof -
  from assms(1) resolve_keys obtain v where "map_of d (py ''transfer_to'') = Some v" by blast
  with assms(2,3) show ?thesis by (simp add: transfer_call_def)
qed

theorem transfer_without_number_witness:
  "resolve_dial_info ascii_digits_only loads_null_only no_env_vars
       (PDict [(py ''phone_number'', PStr (py ''+15551234567''))])
     = Inr (PDict [(py ''phone_number'', PStr (py ''+15551234567'')),
                   (py ''transfer_to'', PStr []),
                   (py ''prospect_name'', PStr (py ''there''))])
   \<and> transfer_call all_succeed no_speech
        (answered_call\<lparr>dial_info := [(py ''phone_number'', PStr (py ''+15551234567'')),
                   (py ''transfer_to'', PStr []),
                   (py ''prospect_name'', PStr (py ''there''))]\<rparr>)
      = (Inr (PStr (py ''cannot transfer call'')),
         answered_call\<lparr>dial_info := [(py ''phone_number'', PStr (py ''+15551234567'')),
                   (py ''transfer_to'', PStr []),
                   (py ''prospect_name'', PStr (py ''there''))]\<rparr>)"
proof -
  have r: "resolve_dial_info ascii_digits_only loads_null_only no_env_vars
       (PDict [(py ''phone_number'', PStr (py ''+15551234567''))])
     = Inr (PDict [(py ''phone_number'', PStr (py ''+15551234567'')),
                   (py ''transfer_to'', PStr []),
                   (py ''prospect_name'', PStr (py ''there''))])"
    by (simp add: resolve_dial_info_def parse_metadata_def apply_defaults_def set_default_def
        getenv_or_empty_def no_env_vars_def py_eq)
  show ?thesis
    using r transfer_without_number [OF r, of _ all_succeed no_speech] by (simp add: py_eq)
qed

subsection \<open>No phone number, no dial\<close>

lemma entrypoint_no_number:
  assumes "resolve_dial_info decimal loads env_vars metadata = Inr (PDict d)"
    and "map_of d (py ''phone_number'') = Some v" and "\<not> truthy v"
  shows "entrypoint env decimal loads env_vars metadata =
           (case env [] Connect of
              Some e \<Rightarrow> (Inl e, job_start\<lparr>trace := [(Connect, Some e)]\<rparr>)
            | None \<Rightarrow> (Inr PNone, \<lparr>participant = None, dial_info = d,
                 trace = [(Connect, None), (SessionStart, None), (Shutdown, None)]\<rparr>))"
  using assms
  by (simp add: entrypoint_def await_call_eq job_start_def place_call_def emit_def init_caller_def
      split: option.splits)

text \<open>
  Claim C7. When the phone number of the resolved dial info is empty, the entry point issues
  no dial request; once connected it starts the session, calls \<open>ctx.shutdown()\<close> and
  returns.
\<close>

theorem no_number_no_dial:
  assumes "resolve_dial_info decimal loads env_vars metadata = Inr (PDict d)"
    and "map_of d (py ''phone_number'') = Some v" and "\<not> truthy v"
  shows "\<not> list_ex is_dial_request (trace (snd (entrypoint env decimal loads env_vars metadata)))
       \<and> (env [] Connect = None \<longrightarrow>
            entrypoint env decimal loads env_vars metadata =
              (Inr PNone, \<lparr>participant = None, dial_info = d,
                 trace = [(Connect, None), (SessionStart, None), (Shutdown, None)]\<rparr>))"
  by (simp add: entrypoint_no_number [OF assms] job_start_def split: option.splits)

theorem no_number_no_dial_witness:
  "resolve_dial_info ascii_digits_only loads_null_only no_env_vars PNone
     = Inr (PDict [(py ''phone_number'', PStr []), (py ''transfer_to'', PStr []),
                   (py ''prospect_name'', PStr (py ''there''))])
   \<and> \<not> truthy (PStr [])
   \<and> entrypoint all_succeed ascii_digits_only loads_null_only no_env_vars PNone =
       (Inr PNone, \<lparr>participant = None,
          dial_info = [(py ''phone_number'', PStr []), (py ''transfer_to'', PStr []),
                       (py ''prospect_name'', PStr (py ''there''))],
          trace = [(Connect, None), (SessionStart, None), (Shutdown, None)]\<rparr>)"
proof -
  note r = resolve_absent [of ascii_digits_only loads_null_only]
  show ?thesis
    using r no_number_no_dial [OF r, of "PStr []" all_succeed]
    by (simp add: all_succeed_def)
qed

subsection \<open>Metadata that is JSON but not an object\<close>

text \<open>
  Claim C9. The metadata string \<open>null\<close> is valid JSON: \<open>json.loads\<close> returns \<open>None\<close>, the
  \<open>try\<close> block is left without an exception, and the first default test
  \<open>"phone_number" not in dial_info\<close> raises \<open>TypeError\<close> outside of it. Resolution raises
  instead of returning a dial info.
\<close>

theorem json_null_metadata_raises:
  "loads (py ''null'') = Inr PNone \<Longrightarrow>
     resolve_dial_info decimal loads env_vars (PStr (py ''null'')) = Inl TypeError"
  by (simp add: resolve_dial_info_def parse_metadata_def apply_defaults_def set_default_def
      py_def)

theorem json_null_metadata_raises_witness:
  "loads_null_only (py ''null'') = Inr PNone
   \<and> resolve_dial_info ascii_digits_only loads_null_only no_env_vars (PStr (py ''null''))
       = Inl TypeError"
  using json_null_metadata_raises [of loads_null_only ascii_digits_only no_env_vars]
  by (simp add: loads_null_only_def)

subsection \<open>Tools before a participant is bound\<close>

text \<open>
  Claim C10. While no participant is bound, \<open>end_call\<close> and \<open>detected_answering_machine\<close>
  raise \<open>AttributeError\<close> and do nothing else; no tool binds a participant, and
  \<open>set_participant\<close> does.
\<close>

theorem unbound_participant_raises:
  "participant s = None \<Longrightarrow>
     end_call env ctx s = (Inl AttributeError, s)
   \<and> detected_answering_machine env ctx s = (Inl AttributeError, s)
   \<and> participant (snd (transfer_call env ctx s)) = None
   \<and> participant (snd (look_up_availability env ctx date s)) = None
   \<and> participant (snd (confirm_appointment env ctx date time s)) = None
   \<and> participant (set_participant p s) = Some p"
  by (simp add: end_call_def detected_answering_machine_def transfer_call_def
      look_up_availability_def confirm_appointment_def set_participant_def
      transfer_request_def transfer_failed_def await_call_eq hangup_eq
      split: option.splits)

theorem unbound_participant_raises_witness:
  "participant (init_caller [] job_start) = None
   \<and> end_call all_succeed no_speech (init_caller [] job_start)
       = (Inl AttributeError, init_caller [] job_start)
   \<and> detected_answering_machine all_succeed no_speech (init_caller [] job_start)
       = (Inl AttributeError, init_caller [] job_start)
   \<and> participant (set_participant (py ''phone_user'') (init_caller [] job_start))
       = Some (py ''phone_user'')"
  using unbound_participant_raises
          [of "init_caller [] job_start" all_succeed no_speech _ _ "py ''phone_user''"]
  by (simp add: init_caller_def job_start_def)

subsection \<open>Regular-expression search\<close>






subsection \<open>Fallback extraction\<close>










subsection \<open>Runs of the tools\<close>

lemma transfer_failed_eq:
  "transfer_failed env s =
     (let a = env (trace s) (GenerateReply apology_instructions);
          t1 = trace s @ [(GenerateReply apology_instructions, a)]
      in case a of
           Some e \<Rightarrow> (Inl e, s\<lparr>trace := t1\<rparr>)
         | None \<Rightarrow> ((case env t1 DeleteRoom of Some e \<Rightarrow> Inl e | None \<Rightarrow> Inr PNone),
                     s\<lparr>trace := t1 @ [(DeleteRoom, env t1 DeleteRoom)]\<rparr>))"
  by (simp add: transfer_failed_def await_call_eq hangup_eq Let_def split: option.splits)

lemma transfer_call_eq:
  assumes "map_of (dial_info s) (py ''transfer_to'') = Some v" and "truthy v"
  shows "transfer_call env ctx s =
     (case env (trace s) (GenerateReply announce_instructions) of
        Some e \<Rightarrow> (Inl e, s\<lparr>trace := trace s @ [(GenerateReply announce_instructions, Some e)]\<rparr>)
      | None \<Rightarrow>
          (case transfer_request env v
                  (s\<lparr>trace := trace s @ [(GenerateReply announce_instructions, None)]\<rparr>) of
             (None, s2) \<Rightarrow> (Inr PNone, s2)
           | (Some e, s2) \<Rightarrow> if is_Exception e then transfer_failed env s2 else (Inl e, s2)))"
  using assms by (simp add: transfer_call_def await_call_eq split: option.splits)

text \<open>The whole run of \<open>transfer_call\<close> with a transfer number and a bound participant.\<close>

lemma transfer_call_run:
  assumes "map_of (dial_info s) (py ''transfer_to'') = Some v" and "truthy v"
    and "participant s = Some p"
  shows "transfer_call env ctx s =
     (let a = env (trace s) (GenerateReply announce_instructions);
          t1 = trace s @ [(GenerateReply announce_instructions, a)];
          r = env t1 (TransferSIPParticipant p v);
          t2 = t1 @ [(TransferSIPParticipant p v, r)];
          b = env t2 (GenerateReply apology_instructions);
          t3 = t2 @ [(GenerateReply apology_instructions, b)];
          d = env t3 DeleteRoom;
          t4 = t3 @ [(DeleteRoom, d)]
      in case a of
           Some e \<Rightarrow> (Inl e, s\<lparr>trace := t1\<rparr>)
         | None \<Rightarrow>
             (case r of
                None \<Rightarrow> (Inr PNone, s\<lparr>trace := t2\<rparr>)
              | Some e \<Rightarrow>
                  if \<not> is_Exception e then (Inl e, s\<lparr>trace := t2\<rparr>)
                  else
                    (case b of
                       Some e' \<Rightarrow> (Inl e', s\<lparr>trace := t3\<rparr>)
                     | None \<Rightarrow>
                         ((case d of Some e'' \<Rightarrow> Inl e'' | None \<Rightarrow> Inr PNone),
                          s\<lparr>trace := t4\<rparr>))))"
proof (cases "env (trace s) (GenerateReply announce_instructions)")
  case (Some e)
  then show ?thesis by (simp add: transfer_call_eq [OF assms(1,2)] Let_def)
next
  case None
  let ?t1 = "trace s @ [(GenerateReply announce_instructions, None)]"
  let ?s1 = "s\<lparr>trace := ?t1\<rparr>"
  have tr: "transfer_request env v ?s1 =
              (env ?t1 (TransferSIPParticipant p v),
               s\<lparr>trace := ?t1 @ [(TransferSIPParticipant p v,
                                   env ?t1 (TransferSIPParticipant p v))]\<rparr>)"
    using assms(3) by (simp add: transfer_request_def await_call_eq)
  show ?thesis
  proof (cases "env ?t1 (TransferSIPParticipant p v)")
    case None
    with \<open>env (trace s) (GenerateReply announce_instructions) = None\<close> tr show ?thesis
      by (simp add: transfer_call_eq [OF assms(1,2)] Let_def)
  next
    case (Some e)
    let ?t2 = "?t1 @ [(TransferSIPParticipant p v, Some e)]"
    from Some \<open>env (trace s) (GenerateReply announce_instructions) = None\<close> tr show ?thesis
      by (cases "env ?t2 (GenerateReply apology_instructions)")
         (simp_all add: transfer_call_eq [OF assms(1,2)] transfer_failed_eq Let_def)
  qed
qed

lemma transfer_call_unbound:
  assumes "map_of (dial_info s) (py ''transfer_to'') = Some v" and "truthy v"
    and "participant s = None"
  shows "\<exists>rest. trace (snd (transfer_call env ctx s))
           = trace s @ (GenerateReply announce_instructions,
                        env (trace s) (GenerateReply announce_instructions)) # rest
       \<and> (\<forall>e. env (trace s) (GenerateReply announce_instructions) = Some e \<longrightarrow>
             rest = [] \<and> fst (transfer_call env ctx s) = Inl e)
       \<and> (\<forall>q w outcome. (TransferSIPParticipant q w, outcome) \<notin> set rest)"
proof (cases "env (trace s) (GenerateReply announce_instructions)")
  case (Some e)
  then show ?thesis by (simp add: transfer_call_eq [OF assms(1,2)])
next
  case None
  let ?s1 = "s\<lparr>trace := trace s @ [(GenerateReply announce_instructions, None)]\<rparr>"
  have tr: "transfer_request env v ?s1 = (Some AttributeError, ?s1)"
    using assms(3) by (simp add: transfer_request_def)
  show ?thesis
    using None tr
    by (cases "env (trace ?s1) (GenerateReply apology_instructions)")
       (simp_all add: transfer_call_eq [OF assms(1,2)] transfer_failed_eq Let_def)
qed

lemma end_call_no_speech:
  assumes "participant s = Some p" and "current_speech ctx = None"
  shows "end_call env ctx s =
     ((case env (trace s) DeleteRoom of Some e \<Rightarrow> Inl e | None \<Rightarrow> Inr PNone),
      s\<lparr>trace := trace s @ [(DeleteRoom, env (trace s) DeleteRoom)]\<rparr>)"
  using assms by (simp add: end_call_def hangup_eq)

lemma ended_call_eq:
  "ended_call = answered_call\<lparr>trace := trace answered_call @ [(DeleteRoom, None)]\<rparr>"
  by (simp add: ended_call_def end_call_def hangup_eq answered_call_def no_speech_def
      all_succeed_def)

lemma answered_call_number:
  "map_of (dial_info answered_call) (py ''transfer_to'') = Some (PStr (py ''+15557654321''))"
  by (simp add: answered_call_def py_eq)

subsection \<open>Announcement before transfer\<close>

text \<open>
  Claim C4. With a transfer number set, the first event of \<open>transfer_call\<close> is the
  announcement turn with the outcome the environment gives it. When the announcement
  raises, the tool ends there with that exception and no transfer request. A transfer
  request to the provider is among the later events only when the announcement has
  returned, and with a participant bound it is then the very next event.
\<close>

theorem announce_before_transfer:
  assumes "map_of (dial_info s) (py ''transfer_to'') = Some v" and "truthy v"
  shows "\<exists>rest. trace (snd (transfer_call env ctx s))
           = trace s @ (GenerateReply announce_instructions,
                        env (trace s) (GenerateReply announce_instructions)) # rest
       \<and> (\<forall>e. env (trace s) (GenerateReply announce_instructions) = Some e \<longrightarrow>
             rest = [] \<and> fst (transfer_call env ctx s) = Inl e)
       \<and> (\<forall>q w outcome. (TransferSIPParticipant q w, outcome) \<in> set rest \<longrightarrow>
             env (trace s) (GenerateReply announce_instructions) = None)
       \<and> (\<forall>p. participant s = Some p \<and>
                env (trace s) (GenerateReply announce_instructions) = None \<longrightarrow>
             (\<exists>later. rest =
                (TransferSIPParticipant p v,
                 env (trace s @ [(GenerateReply announce_instructions, None)])
                   (TransferSIPParticipant p v)) # later))"
proof (cases "participant s")
  case None
  from transfer_call_unbound [where env = env and ctx = ctx, OF assms None]
  show ?thesis using None by auto
next
  case (Some p)
  let ?a = "env (trace s) (GenerateReply announce_instructions)"
  show ?thesis
  proof (cases ?a)
    case (Some e)
    then show ?thesis
      by (simp add: transfer_call_run [OF assms \<open>participant s = Some p\<close>] Let_def)
  next
    case None
    let ?t1 = "trace s @ [(GenerateReply announce_instructions, None)]"
    let ?r = "env ?t1 (TransferSIPParticipant p v)"
    let ?t2 = "?t1 @ [(TransferSIPParticipant p v, ?r)]"
    have "\<exists>later. trace (snd (transfer_call env ctx s)) = ?t2 @ later"
    proof (cases ?r)
      case None
      with \<open>?a = None\<close> show ?thesis
        by (simp add: transfer_call_run [OF assms \<open>participant s = Some p\<close>] Let_def)
    next
      case (Some e)
      with \<open>?a = None\<close> show ?thesis
        by (cases "env ?t2 (GenerateReply apology_instructions)")
           (simp_all add: transfer_call_run [OF assms \<open>participant s = Some p\<close>] Let_def)
    qed
    then obtain later where "trace (snd (transfer_call env ctx s)) = ?t2 @ later" ..
    with None \<open>participant s = Some p\<close> show ?thesis by simp
  qed
qed

theorem announce_before_transfer_witness:
  "map_of (dial_info answered_call) (py ''transfer_to'') = Some (PStr (py ''+15557654321''))
   \<and> truthy (PStr (py ''+15557654321''))
   \<and> trace (snd (transfer_call all_succeed no_speech answered_call))
       = trace answered_call @
         [(GenerateReply announce_instructions, None),
          (TransferSIPParticipant (py ''phone_user'') (PStr (py ''+15557654321'')), None)]
   \<and> transfer_call announcement_fails no_speech answered_call
       = (Inl RuntimeError,
          answered_call\<lparr>trace := trace answered_call @
            [(GenerateReply announce_instructions, Some RuntimeError)]\<rparr>)"
proof -
  note 1 = answered_call_number
  have 2: "truthy (PStr (py ''+15557654321''))" by (simp add: py_def)
  have 3: "participant answered_call = Some (py ''phone_user'')"
    by (simp add: answered_call_def)
  have t: "trace (snd (transfer_call all_succeed no_speech answered_call))
       = trace answered_call @
         [(GenerateReply announce_instructions, None),
          (TransferSIPParticipant (py ''phone_user'') (PStr (py ''+15557654321'')), None)]"
    by (simp add: transfer_call_run [OF 1 2 3] Let_def all_succeed_def)
  from announce_before_transfer [where env = announcement_fails and ctx = no_speech, OF 1 2]
  obtain rest where
    r: "trace (snd (transfer_call announcement_fails no_speech answered_call))
          = trace answered_call @
            (GenerateReply announce_instructions,
             announcement_fails (trace answered_call) (GenerateReply announce_instructions))
            # rest"
    and e: "\<forall>e. announcement_fails (trace answered_call) (GenerateReply announce_instructions)
                   = Some e \<longrightarrow>
               rest = [] \<and> fst (transfer_call announcement_fails no_speech answered_call) = Inl e"
    by blast
  have f: "announcement_fails (trace answered_call) (GenerateReply announce_instructions)
             = Some RuntimeError"
    by (simp add: announcement_fails_def)
  from e f have "rest = []"
    and "fst (transfer_call announcement_fails no_speech answered_call) = Inl RuntimeError"
    by simp_all
  with r f have "transfer_call announcement_fails no_speech answered_call
       = (Inl RuntimeError,
          answered_call\<lparr>trace := trace answered_call @
            [(GenerateReply announce_instructions, Some RuntimeError)]\<rparr>)"
    by (simp add: transfer_call_run [OF 1 2 3] Let_def)
  with 1 2 t show ?thesis by (intro conjI)
qed

subsection \<open>Failed transfer\<close>




subsection \<open>Ending the call while a speech is current\<close>

text \<open>
  Claim C6. When \<open>end_call\<close> finds a current speech whose \<open>done()\<close> returns a \<open>bool\<close>, as the
  library's does, \<open>await current_speech.done()\<close> raises \<open>TypeError\<close>: the tool ends with
  that exception, without having waited for the speech and without a delete-room request.
  The claim, like the comment in the code, has the tool wait for the speech and then tear
  the room down.
\<close>

theorem end_call_awaits_bool:
  assumes "participant s = Some p" and "current_speech ctx = Some h"
    and "done_returns h = PlainBool b"
  shows "end_call env ctx s = (Inl TypeError, s)"
  using assms by (simp add: end_call_def await_done_def)

theorem end_call_awaits_bool_witness:
  "participant answered_call = Some (py ''phone_user'')
   \<and> current_speech speaking = Some \<lparr>handle = 0, done_returns = PlainBool False\<rparr>
   \<and> end_call all_succeed speaking answered_call = (Inl TypeError, answered_call)
   \<and> delete_requests (trace (snd (end_call all_succeed speaking answered_call))) = 0"
proof -
  have 1: "participant answered_call = Some (py ''phone_user'')"
    by (simp add: answered_call_def)
  have 2: "current_speech speaking = Some \<lparr>handle = 0, done_returns = PlainBool False\<rparr>"
    by (simp add: speaking_def)
  have 3: "done_returns \<lparr>handle = 0, done_returns = PlainBool False\<rparr> = PlainBool False"
    by simp
  note 4 = end_call_awaits_bool [where env = all_succeed, OF 1 2 3]
  have "delete_requests (trace answered_call) = 0"
    by (simp add: delete_requests_def answered_call_def)
  with 1 2 4 show ?thesis by simp
qed

subsection \<open>Ending the call twice\<close>

text \<open>
  Claim C2, as amended. The agent does not remember that it hung up. With a participant
  bound and no speech current, two invocations of \<open>end_call\<close> in sequence issue two
  delete-room requests, one each and nothing else; the second invocation returns \<open>None\<close>
  when its delete-room request returns and raises what that request raised otherwise.
\<close>

theorem end_call_twice:
  assumes "participant s = Some p"
    and "current_speech ctx1 = None" and "current_speech ctx2 = None"
  shows "end_call env ctx2 (snd (end_call env ctx1 s)) =
           (let d1 = env (trace s) DeleteRoom;
                t1 = trace s @ [(DeleteRoom, d1)];
                d2 = env t1 DeleteRoom
            in ((case d2 of Some e \<Rightarrow> Inl e | None \<Rightarrow> Inr PNone),
                s\<lparr>trace := t1 @ [(DeleteRoom, d2)]\<rparr>))
       \<and> delete_requests (trace (snd (end_call env ctx2 (snd (end_call env ctx1 s)))))
           = delete_requests (trace s) + 2"
proof -
  let ?s1 = "s\<lparr>trace := trace s @ [(DeleteRoom, env (trace s) DeleteRoom)]\<rparr>"
  have 1: "snd (end_call env ctx1 s) = ?s1"
    by (simp add: end_call_no_speech [OF assms(1,2)])
  have p1: "participant ?s1 = Some p" using assms(1) by simp
  show ?thesis
    unfolding 1
    by (simp add: end_call_no_speech [OF p1 assms(3)] Let_def delete_requests_def)
qed

theorem end_call_twice_witness:
  "participant answered_call = Some (py ''phone_user'')
   \<and> current_speech no_speech = None
   \<and> delete_requests (trace answered_call) = 0
   \<and> end_call all_succeed no_speech (snd (end_call all_succeed no_speech answered_call))
       = (Inr PNone,
          answered_call\<lparr>trace := trace answered_call @ [(DeleteRoom, None), (DeleteRoom, None)]\<rparr>)
   \<and> delete_requests (trace (snd (end_call all_succeed no_speech
         (snd (end_call all_succeed no_speech answered_call))))) = 2"
proof -
  have 1: "participant answered_call = Some (py ''phone_user'')"
    by (simp add: answered_call_def)
  have 2: "current_speech no_speech = None" by (simp add: no_speech_def)
  have 3: "delete_requests (trace answered_call) = 0"
    by (simp add: answered_call_def delete_requests_def)
  note t = end_call_twice [where env = all_succeed, OF 1 2 2]
  from t [THEN conjunct1] have 4: "end_call all_succeed no_speech
                    (snd (end_call all_succeed no_speech answered_call))
       = (Inr PNone,
          answered_call\<lparr>trace := trace answered_call @ [(DeleteRoom, None), (DeleteRoom, None)]\<rparr>)"
    by (simp add: Let_def all_succeed_def)
  from t [THEN conjunct2] 3 have 5: "delete_requests (trace (snd (end_call all_succeed no_speech
         (snd (end_call all_succeed no_speech answered_call))))) = 2"
    by simp
  from 1 2 3 4 5 show ?thesis by (intro conjI)
qed

theorem end_call_twice_counterexample:
  "delete_requests (trace answered_call) = 0
   \<and> delete_requests (trace (snd (end_call all_succeed no_speech ended_call))) = 2
   \<and> end_call all_succeed no_speech ended_call =
       (Inr PNone, ended_call\<lparr>trace := trace ended_call @ [(DeleteRoom, None)]\<rparr>)"
  by (simp add: ended_call_eq end_call_def hangup_eq answered_call_def no_speech_def
      all_succeed_def delete_requests_def)

subsection \<open>Tools after the call has ended\<close>




end
